theory Spec2Isabelle
  imports Complex_Main "HOL-Library.Sublist"
begin

section \<open>Exceptions as values\<close>

text \<open>
  Every function of the model that can raise returns \<open>error + 'a\<close>, with \<open>Inl\<close> the
  exception. \<open>ValueError\<close> and \<open>KeyError\<close> carry the message or the missing key,
  \<open>AttributeError\<close> is the access to an attribute of \<open>None\<close>,
  \<open>UnsupportedOperation\<close> the refusal of a derivative order, and \<open>Raised\<close> stands
  for whatever an injected callable (a device, a kernel, a gradient transform) raises.
\<close>

datatype error = ValueError string | KeyError string | IndexError | AttributeError
  | UnsupportedOperation | Raised string

section \<open>qchem/pennylane\_qchem/hf/basis\_set.py\<close>

text \<open>
  An entry of the basis data: \<open>{"orbitals": [...], "exponents": [...], "coefficients": [...]}\<close>.
\<close>

record atom_basis =
  orbitals :: "string list"
  exponents :: "real list list"
  coefficients :: "real list list"

text \<open>
  The table \<open>STO3G\<close> is imported from \<open>basis_data\<close>, which is not among the sources:
  it is a parameter of the model, a dictionary from atomic symbols to entries.
\<close>

type_synonym basis_data = "string \<rightharpoonup> atom_basis"

type_synonym basis_param = "(nat \<times> nat \<times> nat) \<times> real list \<times> real list"

definition basis_sets :: "basis_data \<Rightarrow> (string \<rightharpoonup> basis_data)" where
  "basis_sets STO3G = [''sto-3g'' \<mapsto> STO3G]"

definition s_shell :: "(nat \<times> nat \<times> nat) list" where
  "s_shell = [(0, 0, 0)]"

definition p_shell :: "(nat \<times> nat \<times> nat) list" where
  "p_shell = [(0, 0, 1), (0, 1, 0), (1, 0, 0)]"

text \<open>\<open>xs[i]\<close> for an index that is not negative: out of range raises \<open>IndexError\<close>.\<close>

definition index :: "'a list \<Rightarrow> nat \<Rightarrow> error + 'a" where
  "index xs i = (if i < length xs then Inr (xs ! i) else Inl IndexError)"

text \<open>An exception ends the computation, a value is handed to the next step.\<close>

definition and_then :: "error + 'a \<Rightarrow> ('a \<Rightarrow> error + 'b) \<Rightarrow> error + 'b" where
  "and_then r f = (case r of Inl e \<Rightarrow> Inl e | Inr x \<Rightarrow> f x)"

text \<open>
  What one round of the loop \<open>for i, j in enumerate(basis["orbitals"])\<close> appends to
  \<open>params\<close>. For \<open>j == "SP"\<close> the inner loop runs over the two characters of \<open>j\<close>:
  the term \<open>S\<close> appends one tuple, the term \<open>P\<close> one tuple for each entry of \<open>p\<close>, with
  the coefficients at \<open>i + 1\<close>. Any other label appends nothing.
\<close>

definition orbital_params :: "atom_basis \<Rightarrow> nat \<Rightarrow> string \<Rightarrow> error + basis_param list" where
  "orbital_params basis i j =
     (if j = ''S'' then
        and_then (index (exponents basis) i) (\<lambda>ex.
        and_then (index (coefficients basis) i) (\<lambda>co.
          Inr [(s_shell ! 0, ex, co)]))
      else if j = ''SP'' then
        and_then (index (exponents basis) i) (\<lambda>ex.
        and_then (index (coefficients basis) i) (\<lambda>co.
        and_then (index (coefficients basis) (i + 1)) (\<lambda>co'.
          Inr ((s_shell ! 0, ex, co) # map (\<lambda>l. (l, ex, co')) p_shell))))
      else Inr [])"

fun atom_loop :: "atom_basis \<Rightarrow> (nat \<times> string) list \<Rightarrow> basis_param list \<Rightarrow> error + basis_param list" where
  "atom_loop basis [] params = Inr params"
| "atom_loop basis ((i, j) # rest) params =
     (case orbital_params basis i j of
        Inl e \<Rightarrow> Inl e
      | Inr new \<Rightarrow> atom_loop basis rest (params @ new))"

definition atom_basis_data :: "basis_data \<Rightarrow> string \<Rightarrow> string \<Rightarrow> error + basis_param list" where
  "atom_basis_data STO3G name atom =
     (case basis_sets STO3G name of
        None \<Rightarrow> Inl (KeyError name)
      | Some table \<Rightarrow>
          (case table atom of
             None \<Rightarrow> Inl (KeyError atom)
           | Some basis \<Rightarrow> atom_loop basis (enumerate 0 (orbitals basis)) []))"

text \<open>
  The loop of \<open>mol_basis_data\<close>, with its two accumulators: \<open>n_basis += [len(basis)]\<close>
  and \<open>basis_set += basis\<close>. An exception of \<open>atom_basis_data\<close> leaves the loop.
\<close>

fun mol_loop :: "basis_data \<Rightarrow> string \<Rightarrow> string list \<Rightarrow> nat list \<Rightarrow> basis_param list
    \<Rightarrow> error + (nat list \<times> basis_param list)" where
  "mol_loop STO3G name [] n_basis basis_set = Inr (n_basis, basis_set)"
| "mol_loop STO3G name (s # symbols) n_basis basis_set =
     (case atom_basis_data STO3G name s of
        Inl e \<Rightarrow> Inl e
      | Inr basis \<Rightarrow> mol_loop STO3G name symbols (n_basis @ [length basis]) (basis_set @ basis))"

definition mol_basis_data :: "basis_data \<Rightarrow> string \<Rightarrow> string list
    \<Rightarrow> error + (nat list \<times> basis_param list)" where
  "mol_basis_data STO3G name symbols = mol_loop STO3G name symbols [] []"

text \<open>
  The hydrogen entry that the docstrings of \<open>atom_basis_data\<close> and \<open>mol_basis_data\<close>
  print, as a table with this one atom.
\<close>

definition hydrogen :: atom_basis where
  "hydrogen = \<lparr>orbitals = [''S''],
     exponents = [[3.425250914, 0.6239137298, 0.168855404]],
     coefficients = [[0.1543289673, 0.5353281423, 0.4446345422]]\<rparr>"

definition STO3G_H :: basis_data where
  "STO3G_H = [''H'' \<mapsto> hydrogen]"

section \<open>pennylane/kernels/cost\_functions.py\<close>

type_synonym matrix = "real list list"

text \<open>
  \<open>square_kernel_matrix\<close> (from \<open>.utils\<close>) and \<open>frobenius_inner_product\<close> (from
  \<open>..utils\<close>) are not among the sources: they are parameters. The kernel is an opaque
  callable that only \<open>square_kernel_matrix\<close> evaluates; it may be a circuit on a device with
  finitely many shots, so evaluating it threads a state \<open>'s\<close> (the device and its random
  generator). Floating-point numbers are read as reals.
\<close>

record ('x, 'k, 's) kernel_utils =
  square_kernel_matrix :: "'x list \<Rightarrow> 'k \<Rightarrow> bool \<Rightarrow> 's \<Rightarrow> (error + matrix) \<times> 's"
  frobenius_inner_product :: "matrix \<Rightarrow> matrix \<Rightarrow> bool \<Rightarrow> error + real"

text \<open>\<open>np.outer\<close> on two vectors.\<close>

definition outer :: "real list \<Rightarrow> real list \<Rightarrow> matrix" where
  "outer a b = map (\<lambda>x. map (\<lambda>y. x * y) b) a"

text \<open>
  The branch \<open>if rescale_class_labels\<close>: \<open>nplus\<close> counts the labels equal to 1,
  \<open>nminus = len(Y) - nplus\<close>, and every label is divided by the size of its class.
\<close>

definition rescaled_labels :: "real list \<Rightarrow> real list" where
  "rescaled_labels Y =
     (let nplus = length (filter (\<lambda>y. y = 1) Y);
          nminus = length Y - nplus
      in map (\<lambda>y. if y = 1 then y / real nplus else y / real nminus) Y)"

definition polarity :: "('x, 'k, 's) kernel_utils \<Rightarrow> 'x list \<Rightarrow> real list \<Rightarrow> 'k \<Rightarrow> bool \<Rightarrow> bool \<Rightarrow> bool
    \<Rightarrow> 's \<Rightarrow> (error + real) \<times> 's" where
  "polarity U X Y kernel_fn assume_normalized_kernel rescale_class_labels do_normalize s =
     (case square_kernel_matrix U X kernel_fn assume_normalized_kernel s of
        (Inl e, s') \<Rightarrow> (Inl e, s')
      | (Inr K, s') \<Rightarrow>
          (let Y' = (if rescale_class_labels then rescaled_labels Y else Y);
               T = outer Y' Y'
           in (frobenius_inner_product U K T do_normalize, s')))"

definition target_alignment :: "('x, 'k, 's) kernel_utils \<Rightarrow> 'x list \<Rightarrow> real list \<Rightarrow> 'k \<Rightarrow> bool \<Rightarrow> bool
    \<Rightarrow> 's \<Rightarrow> (error + real) \<times> 's" where
  "target_alignment U X Y kernel_fn assume_normalized_kernel rescale_class_labels s =
     polarity U X Y kernel_fn assume_normalized_kernel rescale_class_labels True s"

section \<open>pennylane/interfaces/batch/autograd.py\<close>

subsection \<open>Values, tapes and the device\<close>

text \<open>
  A numeric array is either plain or an autograd \<open>ArrayBox\<close> around a value (its
  \<open>_value\<close>), itself plain or boxed again: one box for each derivative being traced.
\<close>

datatype val = Tensor "real list" | ArrayBox val

text \<open>
  Of a tape the interface uses its parameters only: all of them (what \<open>Unwrap\<close> reads
  and writes) and the trainable ones, in the order of the tape (\<open>get_parameters()\<close>).
\<close>

record tape =
  params :: "val list"
  trainable_params :: "nat set"

definition get_parameters :: "tape \<Rightarrow> val list" where
  "get_parameters t = nths (params t) (trainable_params t)"

definition set_parameters :: "tape \<Rightarrow> val list \<Rightarrow> tape" where
  "set_parameters t ps = t\<lparr>params := ps\<rparr>"

text \<open>
  \<open>execute_fn(tapes)\<close> returns \<open>(results, jacobians)\<close> or raises, and may change the
  state \<open>'d\<close> of the device. A device object is known by its identity.
\<close>

type_synonym 'd execute_fn = "tape list \<Rightarrow> 'd \<Rightarrow> (error + (val list \<times> val list)) \<times> 'd"

type_synonym device = nat

text \<open>
  Of \<open>gradient_fn\<close> the interface inspects two things. \<open>gf_module\<close> is what
  \<open>inspect.getmodule(gradient_fn)\<close> finds: \<open>Some name\<close> for a module of that
  \<open>__name__\<close>, \<open>None\<close> when \<open>getmodule\<close> returns \<open>None\<close>, as it does for the method
  of a built-in object such as \<open>[].append\<close> or for a function made by \<open>exec\<close> in a
  namespace without a name. \<open>gf_self\<close> is \<open>Some d\<close> when
  \<open>inspect.ismethod(gradient_fn)\<close> holds and \<open>gradient_fn.__self__\<close> is the object \<open>d\<close>.
  \<open>gf_call\<close> is the call \<open>gradient_fn(tapes)\<close>.
\<close>

record 'd gradient_fn =
  gf_module :: "string option"
  gf_self :: "device option"
  gf_call :: "tape list \<Rightarrow> 'd \<Rightarrow> (error + val list) \<times> 'd"

text \<open>
  A call of the primitive \<open>_execute\<close> that has returned: its keyword arguments and its
  value \<open>ans\<close>. \<open>autograd.extend.defvjp(_execute, vjp, argnums=[0])\<close> makes the host
  hand exactly these to \<open>vjp\<close> when it differentiates the call, so they are the
  variables that \<open>grad_fn\<close> then reads. (The first argument, \<open>parameters\<close>, is handed
  over too; \<open>grad_fn\<close> does not read it.)
\<close>

record 'd node =
  nd_tapes :: "tape list"
  nd_device :: device
  nd_execute_fn :: "'d execute_fn"
  nd_gradient_fn :: "'d gradient_fn"
  nd_n :: int
  nd_ans :: "val list \<times> val list"

text \<open>
  What a call leaves to be observed besides its value: an entry into \<open>execute\<close> with its
  \<open>_n\<close>, a call of \<open>execute_fn\<close> or of a device's gradient method, each with the
  parameters that the tapes held when the device saw them, and a call of \<open>_execute\<close>
  that has returned.
\<close>

datatype 'd event = ExecuteCall int | ExecuteFn "val list list" | GradientFn "val list list"
  | PrimitiveCall "'d node"

text \<open>
  A call returns or raises (\<open>result\<close>), leaves the tapes it was given in some state
  (they are objects of the caller, changed in place), leaves the device in some state, and
  has made the calls listed in \<open>events\<close>, in order.
\<close>

record ('a, 'd) outcome =
  result :: "error + 'a"
  tapes_after :: "tape list"
  device_after :: 'd
  events :: "'d event list"

text \<open>
  Functions of other modules of the library, not among the sources, are parameters:
  \<open>np.tensor\<close>, \<open>qml.gradients._vector_jacobian_products(dy, jacs, reduction="append")\<close>,
  \<open>qml.gradients.batch_vjp(tapes, dy, gradient_fn, reduction="append")\<close>, which returns
  the gradient tapes and the function that post-processes their results, and
  \<open>qml.math.to_numpy(v, max_depth)\<close>. None of them is handed the device.
\<close>

record 'd collaborators =
  np_tensor :: "val \<Rightarrow> val"
  vector_jacobian_products :: "val list \<Rightarrow> val list \<Rightarrow> error + val list"
  batch_vjp :: "tape list \<Rightarrow> val list \<Rightarrow> 'd gradient_fn
    \<Rightarrow> error + (tape list \<times> (val list \<Rightarrow> error + val list))"
  to_numpy :: "val \<Rightarrow> int \<Rightarrow> val"

subsection \<open>The context manager \<open>qml.tape.Unwrap\<close>\<close>

text \<open>The plain numeric value under all the boxes.\<close>

fun unwrap_val :: "val \<Rightarrow> val" where
  "unwrap_val (Tensor x) = Tensor x"
| "unwrap_val (ArrayBox v) = unwrap_val v"

text \<open>
  Modelled from the spec: \<open>qml.tape.Unwrap\<close> (pennylane/tape, not among the sources).
  The spec calls it a scoped, reversible transform that temporarily substitutes each
  tape's graph-tracking parameters with plain numeric values and restores the parameters
  on every exit path, exceptions included. Entering remembers the parameters of every
  tape and writes their plain values; leaving writes the remembered parameters back. The
  \<open>with\<close> statement of the source leaves the block when the body has returned and when
  it has raised: in both cases the result of the body, \<open>Inr\<close> or \<open>Inl\<close>, is passed on.
\<close>

definition unwrapped :: "tape list \<Rightarrow> tape list" where
  "unwrapped tapes = map (\<lambda>t. set_parameters t (map unwrap_val (params t))) tapes"

definition with_Unwrap :: "tape list \<Rightarrow> (tape list \<Rightarrow> 'd \<Rightarrow> (error + 'a) \<times> 'd \<times> 'd event list)
    \<Rightarrow> 'd \<Rightarrow> ('a, 'd) outcome" where
  "with_Unwrap tapes body d =
     (let original = map params tapes;
          (r, d', evs) = body (unwrapped tapes) d
      in \<lparr>result = r, tapes_after = map2 set_parameters (unwrapped tapes) original,
          device_after = d', events = evs\<rparr>)"

subsection \<open>\<open>execute\<close> and the primitive \<open>_execute\<close>\<close>

definition call_execute_fn :: "'d execute_fn \<Rightarrow> tape list \<Rightarrow> 'd
    \<Rightarrow> (error + (val list \<times> val list)) \<times> 'd \<times> 'd event list" where
  "call_execute_fn execute_fn tapes d =
     (let (r, d') = execute_fn tapes d in (r, d', [ExecuteFn (map params tapes)]))"

definition call_gradient_fn :: "'d gradient_fn \<Rightarrow> tape list \<Rightarrow> 'd
    \<Rightarrow> (error + val list) \<times> 'd \<times> 'd event list" where
  "call_gradient_fn gradient_fn tapes d =
     (let (r, d') = gf_call gradient_fn tapes d in (r, d', [GradientFn (map params tapes)]))"

text \<open>
  \<open>_execute\<close>, the function registered as an autograd primitive. Its body reads
  \<open>tapes\<close> and \<open>execute_fn\<close> only; \<open>parameters\<close> is there for autograd to trace, and
  \<open>device\<close>, \<open>gradient_fn\<close> and \<open>_n\<close> are there for \<open>vjp\<close>: when the call has
  returned, it is a \<open>PrimitiveCall\<close> with the arguments it was given and its value.
\<close>

definition execute_primitive :: "'d collaborators \<Rightarrow> val list list \<Rightarrow> tape list \<Rightarrow> device
    \<Rightarrow> 'd execute_fn \<Rightarrow> 'd gradient_fn \<Rightarrow> int \<Rightarrow> 'd \<Rightarrow> (val list \<times> val list, 'd) outcome" where
  "execute_primitive C parameters tapes device execute_fn gradient_fn n d =
     (let r = with_Unwrap tapes (call_execute_fn execute_fn) d
      in case result r of
           Inl e \<Rightarrow> r\<lparr>result := Inl e\<rparr>
         | Inr (res, jacs) \<Rightarrow>
             r\<lparr>result := Inr (map (np_tensor C) res, jacs),
               events := events r @
                 [PrimitiveCall \<lparr>nd_tapes = tapes, nd_device = device,
                    nd_execute_fn = execute_fn, nd_gradient_fn = gradient_fn, nd_n = n,
                    nd_ans = (map (np_tensor C) res, jacs)\<rparr>]\<rparr>)"

text \<open>
  \<open>execute(tapes, device, execute_fn, gradient_fn, _n=1)\<close>: the last argument is
  optional, \<open>None\<close> is a call that leaves it out.
\<close>

definition execute :: "'d collaborators \<Rightarrow> tape list \<Rightarrow> device \<Rightarrow> 'd execute_fn \<Rightarrow> 'd gradient_fn
    \<Rightarrow> int option \<Rightarrow> 'd \<Rightarrow> (val list, 'd) outcome" where
  "execute C tapes device execute_fn gradient_fn n_arg d =
     (let n = (case n_arg of None \<Rightarrow> 1 | Some k \<Rightarrow> k);
          parameters = map get_parameters tapes;
          r = execute_primitive C parameters tapes device execute_fn gradient_fn n d
      in \<lparr>result = (case result r of Inl e \<Rightarrow> Inl e | Inr ans \<Rightarrow> Inr (fst ans)),
          tapes_after = tapes_after r, device_after = device_after r,
          events = ExecuteCall n # events r\<rparr>)"

subsection \<open>The gradient rule \<open>grad_fn\<close>\<close>

text \<open>
  The test of line 138, \<open>"pennylane.gradients" in inspect.getmodule(gradient_fn).__name__\<close>:
  where \<open>getmodule\<close> returns \<open>None\<close>, reading \<open>__name__\<close> raises \<open>AttributeError\<close>.
\<close>

definition module_in_gradients :: "'d gradient_fn \<Rightarrow> error + bool" where
  "module_in_gradients gradient_fn =
     (case gf_module gradient_fn of
        None \<Rightarrow> Inl AttributeError
      | Some name \<Rightarrow> Inr (sublist ''pennylane.gradients'' name))"

text \<open>A gradient transform is a \<open>gradient_fn\<close> for which this test holds.\<close>

definition is_gradient_transform :: "'d gradient_fn \<Rightarrow> bool" where
  "is_gradient_transform gradient_fn = (module_in_gradients gradient_fn = Inr True)"

definition is_device_method :: "'d gradient_fn \<Rightarrow> device \<Rightarrow> bool" where
  "is_device_method gradient_fn device = (gf_self gradient_fn = Some device)"

text \<open>
  The body of \<open>grad_fn(dy)\<close> up to its last line: how \<open>vjps\<close> is obtained. \<open>ans\<close>,
  \<open>tapes\<close>, \<open>device\<close>, \<open>execute_fn\<close>, \<open>gradient_fn\<close> and \<open>_n\<close> are the variables
  of the enclosing \<open>vjp\<close>, that is the value and the arguments of the call of
  \<open>_execute\<close> being differentiated. \<open>dy\<close> has one component for each component of
  \<open>ans\<close>.
\<close>

definition grad_fn_vjps :: "'d collaborators \<Rightarrow> val list \<times> val list \<Rightarrow> tape list \<Rightarrow> device
    \<Rightarrow> 'd execute_fn \<Rightarrow> 'd gradient_fn \<Rightarrow> int \<Rightarrow> val list \<times> val list \<Rightarrow> 'd
    \<Rightarrow> (val list, 'd) outcome" where
  "grad_fn_vjps C ans tapes device execute_fn gradient_fn n dy_all d =
     (let dy = fst dy_all; jacs = snd ans in
      if jacs \<noteq> [] then
        \<lparr>result = vector_jacobian_products C dy jacs,
         tapes_after = tapes, device_after = d, events = []\<rparr>
      else
        (case module_in_gradients gradient_fn of
           Inl e \<Rightarrow> \<lparr>result = Inl e, tapes_after = tapes, device_after = d, events = []\<rparr>
         | Inr in_gradients \<Rightarrow>
             if in_gradients then
               (case batch_vjp C tapes dy gradient_fn of
                  Inl e \<Rightarrow> \<lparr>result = Inl e, tapes_after = tapes, device_after = d, events = []\<rparr>
                | Inr (vjp_tapes, fn) \<Rightarrow>
                    (let r = execute C vjp_tapes device execute_fn gradient_fn (Some (n + 1)) d
                     in \<lparr>result = (case result r of Inl e \<Rightarrow> Inl e | Inr res \<Rightarrow> fn res),
                         tapes_after = tapes, device_after = device_after r,
                         events = events r\<rparr>))
             else if is_device_method gradient_fn device then
               (let r = with_Unwrap tapes (call_gradient_fn gradient_fn) d
                in r\<lparr>result := (case result r of
                                   Inl e \<Rightarrow> Inl e
                                 | Inr jacs' \<Rightarrow> vector_jacobian_products C dy jacs')\<rparr>)
             else
               \<lparr>result = Inl (ValueError ''Unknown gradient function!!!''),
                tapes_after = tapes, device_after = d, events = []\<rparr>))"

fun is_ArrayBox :: "val \<Rightarrow> bool" where
  "is_ArrayBox (ArrayBox v) = True"
| "is_ArrayBox (Tensor x) = False"

text \<open>
  The last line of \<open>grad_fn\<close>:
  \<open>[qml.math.to_numpy(v, max_depth=_n) if isinstance(v, ArrayBox) else v for v in vjps]\<close>.
\<close>

definition grad_fn :: "'d collaborators \<Rightarrow> val list \<times> val list \<Rightarrow> tape list \<Rightarrow> device
    \<Rightarrow> 'd execute_fn \<Rightarrow> 'd gradient_fn \<Rightarrow> int \<Rightarrow> val list \<times> val list \<Rightarrow> 'd
    \<Rightarrow> (val list, 'd) outcome" where
  "grad_fn C ans tapes device execute_fn gradient_fn n dy_all d =
     (let r = grad_fn_vjps C ans tapes device execute_fn gradient_fn n dy_all d
      in case result r of
           Inl e \<Rightarrow> r\<lparr>result := Inl e\<rparr>
         | Inr vjps \<Rightarrow>
             r\<lparr>result := Inr (map (\<lambda>v. if is_ArrayBox v then to_numpy C v n else v) vjps)\<rparr>)"

subsection \<open>Observations on a list of events\<close>

text \<open>The values of \<open>_n\<close> with which \<open>execute\<close> was entered, and the calls of the device.\<close>

fun entered :: "'d event list \<Rightarrow> int list" where
  "entered [] = []"
| "entered (ExecuteCall n # evs) = n # entered evs"
| "entered (ev # evs) = entered evs"

fun device_calls :: "'d event list \<Rightarrow> 'd event list" where
  "device_calls [] = []"
| "device_calls (ExecuteFn ps # evs) = ExecuteFn ps # device_calls evs"
| "device_calls (GradientFn ps # evs) = GradientFn ps # device_calls evs"
| "device_calls (ev # evs) = device_calls evs"

text \<open>
  A call chain. The host differentiates a call \<open>nd\<close> of \<open>_execute\<close> by calling
  \<open>grad_fn\<close> with the arguments and the value of that call, for some upstream gradient
  and in some state of the device; \<open>reenters nd nd'\<close> when \<open>nd'\<close> is a call of
  \<open>_execute\<close> made during that backward pass, which the host may differentiate in turn.
\<close>

inductive reenters :: "'d collaborators \<Rightarrow> 'd node \<Rightarrow> 'd node \<Rightarrow> bool" for C where
  backward_pass:
    "PrimitiveCall nd' \<in> set (events (grad_fn C (nd_ans nd) (nd_tapes nd) (nd_device nd)
        (nd_execute_fn nd) (nd_gradient_fn nd) (nd_n nd) dy d))
     \<Longrightarrow> reenters C nd nd'"

subsection \<open>\<open>qml.math.to_numpy\<close> with a maximal depth\<close>

fun box_depth :: "val \<Rightarrow> nat" where
  "box_depth (Tensor x) = 0"
| "box_depth (ArrayBox v) = Suc (box_depth v)"

fun strip :: "nat \<Rightarrow> val \<Rightarrow> val" where
  "strip 0 v = v"
| "strip (Suc k) (Tensor x) = Tensor x"
| "strip (Suc k) (ArrayBox v) = strip k v"

text \<open>
  Modelled from the spec: \<open>qml.math.to_numpy(v, max_depth)\<close> (pennylane/math, not among
  the sources). The spec has a wrapper value converted to a plain numeric value, but only
  down to \<open>max_depth\<close> levels of wrapping: at most that many boxes are taken off.
\<close>

definition to_numpy_spec :: "val \<Rightarrow> int \<Rightarrow> val" where
  "to_numpy_spec v max_depth = strip (nat max_depth) v"

subsection \<open>The entry point with a \<open>mode\<close>\<close>

datatype mode = Forward | Backward

definition forward_mode_message :: string where
  "forward_mode_message =
     ''Gradient transforms cannot be used with mode='' @ [CHR 0x27] @ ''forward'' @ [CHR 0x27]"

text \<open>
  Modelled from the spec: the entry point that takes the \<open>mode\<close> selector and validates
  it against \<open>gradient_fn\<close> (pennylane/interfaces/batch/\_\_init\_\_.py, not among the
  sources; \<open>test_incorrect_mode\<close> calls it). The spec has gradient-transform functions
  incompatible with forward mode: the call fails validation with a descriptive error
  before any device call occurs. Every other call goes on to \<open>execute\<close>.
\<close>

definition execute_mode :: "'d collaborators \<Rightarrow> tape list \<Rightarrow> device \<Rightarrow> 'd execute_fn
    \<Rightarrow> 'd gradient_fn \<Rightarrow> mode \<Rightarrow> 'd \<Rightarrow> (val list, 'd) outcome" where
  "execute_mode C tapes device execute_fn gradient_fn mode d =
     (if mode = Forward \<and> is_gradient_transform gradient_fn then
        \<lparr>result = Inl (ValueError forward_mode_message),
         tapes_after = tapes, device_after = d, events = []\<rparr>
      else execute C tapes device execute_fn gradient_fn None d)"

subsection \<open>The gradient rule under a ceiling \<open>max_diff\<close>\<close>




subsection \<open>Example inputs\<close>

text \<open>
  The tape of the unit tests, \<open>RY(a[0]); RX(a[1]); expval(Z)\<close> with \<open>a = [0.1, 0.2]\<close>
  traced by the host, and a device whose state counts the calls it has served.
\<close>

definition tape0 :: tape where
  "tape0 = \<lparr>params = [ArrayBox (Tensor [0.1]), ArrayBox (Tensor [0.2])],
     trainable_params = {0, 1}\<rparr>"

definition device0 :: device where
  "device0 = 0"

definition simulator :: "nat execute_fn" where
  "simulator tapes d = (Inr (map (\<lambda>t. Tensor [1]) tapes, []), d + 1)"

definition simulator_forward :: "nat execute_fn" where
  "simulator_forward tapes d =
     (Inr (map (\<lambda>t. Tensor [1]) tapes, map (\<lambda>t. Tensor [0, 0]) tapes), d + 1)"

definition failing_device :: "nat execute_fn" where
  "failing_device tapes d = (Inl (Raised ''device failure''), d + 1)"

text \<open>
  Gradient functions: a gradient transform, a method bound to \<open>device0\<close>, one that
  fails, the \<open>lambda x: x\<close> of \<open>test_unknown_gradient_fn_error\<close>, defined in the test
  module, and \<open>[].append\<close>, a callable for which \<open>inspect.getmodule\<close> returns \<open>None\<close>
  and \<open>inspect.ismethod\<close> is false.
\<close>

definition param_shift :: "nat gradient_fn" where
  "param_shift = \<lparr>gf_module = Some ''pennylane.gradients.parameter_shift'', gf_self = None,
     gf_call = (\<lambda>tapes d. (Inl (Raised ''not called''), d))\<rparr>"

definition adjoint_jacobian :: "nat gradient_fn" where
  "adjoint_jacobian = \<lparr>gf_module = Some ''pennylane._qubit_device'', gf_self = Some device0,
     gf_call = (\<lambda>tapes d. (Inr (map (\<lambda>t. Tensor [0, 0]) tapes), d + 1))\<rparr>"

definition failing_method :: "nat gradient_fn" where
  "failing_method = \<lparr>gf_module = Some ''pennylane._qubit_device'', gf_self = Some device0,
     gf_call = (\<lambda>tapes d. (Inl (Raised ''device failure''), d + 1))\<rparr>"

definition unknown_gradient_fn :: "nat gradient_fn" where
  "unknown_gradient_fn = \<lparr>gf_module = Some ''test_batch_torch'', gf_self = None,
     gf_call = (\<lambda>tapes d. (Inl (Raised ''not called''), d))\<rparr>"

definition list_append :: "nat gradient_fn" where
  "list_append = \<lparr>gf_module = None, gf_self = None,
     gf_call = (\<lambda>tapes d. (Inl (Raised ''not called''), d))\<rparr>"

text \<open>
  Stand-ins for the functions of the library: the product keeps the upstream gradient next
  to the Jacobians, \<open>batch_vjp\<close> makes two shifted tapes of every tape.
\<close>

definition library :: "nat collaborators" where
  "library = \<lparr>np_tensor = id,
     vector_jacobian_products = (\<lambda>dy jacs. Inr (dy @ jacs)),
     batch_vjp = (\<lambda>tapes dy gradient_fn. Inr (tapes @ tapes, \<lambda>res. Inr (take (length tapes) res))),
     to_numpy = to_numpy_spec\<rparr>"

text \<open>
  The call of \<open>_execute\<close> that \<open>execute\<close> makes at level \<open>k\<close> on \<open>tapes\<close>, with the
  simulator and the gradient transform.
\<close>

definition node_at :: "int \<Rightarrow> tape list \<Rightarrow> nat node" where
  "node_at k tapes = \<lparr>nd_tapes = tapes, nd_device = device0, nd_execute_fn = simulator,
     nd_gradient_fn = param_shift, nd_n = k, nd_ans = (map (\<lambda>t. Tensor [1]) tapes, [])\<rparr>"

section \<open>What the calls of the interface compute\<close>

text \<open>Leaving \<open>Unwrap\<close> undoes what entering it did.\<close>

lemma restore_params:
  "map2 set_parameters (unwrapped tapes) (map params tapes) = tapes"
  by (induction tapes) (simp_all add: unwrapped_def set_parameters_def)

lemma with_Unwrap_eq:
  "with_Unwrap tapes body d =
     \<lparr>result = fst (body (unwrapped tapes) d), tapes_after = tapes,
      device_after = fst (snd (body (unwrapped tapes) d)),
      events = snd (snd (body (unwrapped tapes) d))\<rparr>"
  by (simp add: with_Unwrap_def restore_params split: prod.splits)

lemma params_unwrapped: "map params (unwrapped tapes) = map (map unwrap_val \<circ> params) tapes"
  by (simp add: unwrapped_def set_parameters_def)

lemma call_execute_fn_eq:
  "call_execute_fn execute_fn tapes d
     = (fst (execute_fn tapes d), snd (execute_fn tapes d), [ExecuteFn (map params tapes)])"
  by (simp add: call_execute_fn_def split: prod.splits)

lemma call_gradient_fn_eq:
  "call_gradient_fn gradient_fn tapes d
     = (fst (gf_call gradient_fn tapes d), snd (gf_call gradient_fn tapes d),
        [GradientFn (map params tapes)])"
  by (simp add: call_gradient_fn_def split: prod.splits)

lemma execute_primitive_eq:
  "execute_primitive C parameters tapes device execute_fn gradient_fn n d =
     \<lparr>result = (case fst (execute_fn (unwrapped tapes) d) of
                   Inl e \<Rightarrow> Inl e
                 | Inr (res, jacs) \<Rightarrow> Inr (map (np_tensor C) res, jacs)),
      tapes_after = tapes,
      device_after = snd (execute_fn (unwrapped tapes) d),
      events = ExecuteFn (map (map unwrap_val \<circ> params) tapes) #
        (case fst (execute_fn (unwrapped tapes) d) of
           Inl e \<Rightarrow> []
         | Inr (res, jacs) \<Rightarrow>
             [PrimitiveCall \<lparr>nd_tapes = tapes, nd_device = device,
                nd_execute_fn = execute_fn, nd_gradient_fn = gradient_fn, nd_n = n,
                nd_ans = (map (np_tensor C) res, jacs)\<rparr>])\<rparr>"
  by (simp add: execute_primitive_def with_Unwrap_eq call_execute_fn_eq params_unwrapped
      split: sum.splits prod.splits)

lemma execute_eq:
  "execute C tapes device execute_fn gradient_fn n_arg d =
     \<lparr>result = (case fst (execute_fn (unwrapped tapes) d) of
                   Inl e \<Rightarrow> Inl e
                 | Inr (res, jacs) \<Rightarrow> Inr (map (np_tensor C) res)),
      tapes_after = tapes,
      device_after = snd (execute_fn (unwrapped tapes) d),
      events = ExecuteCall (case n_arg of None \<Rightarrow> 1 | Some k \<Rightarrow> k) #
        ExecuteFn (map (map unwrap_val \<circ> params) tapes) #
        (case fst (execute_fn (unwrapped tapes) d) of
           Inl e \<Rightarrow> []
         | Inr (res, jacs) \<Rightarrow>
             [PrimitiveCall \<lparr>nd_tapes = tapes, nd_device = device,
                nd_execute_fn = execute_fn, nd_gradient_fn = gradient_fn,
                nd_n = (case n_arg of None \<Rightarrow> 1 | Some k \<Rightarrow> k),
                nd_ans = (map (np_tensor C) res, jacs)\<rparr>])\<rparr>"
  by (simp add: execute_def execute_primitive_eq Let_def split: sum.splits prod.splits)

text \<open>What \<open>execute\<close> lets be observed: one entry, one call of the device.\<close>

lemma execute_entered:
  "entered (events (execute C tapes device execute_fn gradient_fn n_arg d))
     = [case n_arg of None \<Rightarrow> 1 | Some k \<Rightarrow> k]"
  by (simp add: execute_eq split: sum.splits prod.splits)

lemma execute_device_calls:
  "device_calls (events (execute C tapes device execute_fn gradient_fn n_arg d))
     = [ExecuteFn (map (map unwrap_val \<circ> params) tapes)]"
  by (simp add: execute_eq split: sum.splits prod.splits)

lemma execute_node:
  "PrimitiveCall nd \<in> set (events (execute C tapes device execute_fn gradient_fn n_arg d))
   \<Longrightarrow> nd_n nd = (case n_arg of None \<Rightarrow> 1 | Some k \<Rightarrow> k)
       \<and> nd_tapes nd = tapes \<and> nd_device nd = device
       \<and> nd_execute_fn nd = execute_fn \<and> nd_gradient_fn nd = gradient_fn"
  by (auto simp: execute_eq split: sum.splits prod.splits)

lemma device_method_eq:
  "with_Unwrap tapes (call_gradient_fn gradient_fn) d =
     \<lparr>result = fst (gf_call gradient_fn (unwrapped tapes) d), tapes_after = tapes,
      device_after = snd (gf_call gradient_fn (unwrapped tapes) d),
      events = [GradientFn (map (map unwrap_val \<circ> params) tapes)]\<rparr>"
  by (simp add: with_Unwrap_eq call_gradient_fn_eq params_unwrapped)

lemma grad_fn_tapes_after:
  "tapes_after (grad_fn C ans tapes device execute_fn gradient_fn n dy d) = tapes"
  by (simp add: grad_fn_def grad_fn_vjps_def Let_def device_method_eq
      split: sum.splits prod.splits)

lemma grad_fn_events:
  "events (grad_fn C ans tapes device execute_fn gradient_fn n dy d)
     = events (grad_fn_vjps C ans tapes device execute_fn gradient_fn n dy d)"
  by (simp add: grad_fn_def Let_def split: sum.splits)

lemma grad_fn_device_after:
  "device_after (grad_fn C ans tapes device execute_fn gradient_fn n dy d)
     = device_after (grad_fn_vjps C ans tapes device execute_fn gradient_fn n dy d)"
  by (simp add: grad_fn_def Let_def split: sum.splits)

lemma grad_fn_result:
  "result (grad_fn C ans tapes device execute_fn gradient_fn n dy d)
     = (case result (grad_fn_vjps C ans tapes device execute_fn gradient_fn n dy d) of
          Inl e \<Rightarrow> Inl e
        | Inr vjps \<Rightarrow> Inr (map (\<lambda>v. if is_ArrayBox v then to_numpy C v n else v) vjps))"
  by (simp add: grad_fn_def Let_def split: sum.splits)

text \<open>
  The events of a backward pass: none, or those of the one call of \<open>execute\<close> at
  \<open>_n + 1\<close> with the same device, \<open>execute_fn\<close> and \<open>gradient_fn\<close>, or one call of
  the device's gradient method.
\<close>

lemma grad_fn_vjps_events:
  "events (grad_fn_vjps C ans tapes device execute_fn gradient_fn n dy d) = []
   \<or> (\<exists>vjp_tapes. events (grad_fn_vjps C ans tapes device execute_fn gradient_fn n dy d)
         = events (execute C vjp_tapes device execute_fn gradient_fn (Some (n + 1)) d))
   \<or> events (grad_fn_vjps C ans tapes device execute_fn gradient_fn n dy d)
         = [GradientFn (map (map unwrap_val \<circ> params) tapes)]"
  by (auto simp: grad_fn_vjps_def Let_def device_method_eq split: sum.splits prod.splits)

lemma box_depth_strip: "box_depth (strip k v) = box_depth v - k"
  by (induction k v rule: strip.induct) simp_all

lemma param_shift_is_transform: "is_gradient_transform param_shift"
  by code_simp

lemma adjoint_jacobian_is_method:
  "module_in_gradients adjoint_jacobian = Inr False \<and> is_device_method adjoint_jacobian device0"
  by code_simp

lemma failing_method_is_method:
  "module_in_gradients failing_method = Inr False \<and> is_device_method failing_method device0"
  by code_simp

lemma unknown_gradient_fn_is_unknown:
  "module_in_gradients unknown_gradient_fn = Inr False
   \<and> \<not> is_gradient_transform unknown_gradient_fn
   \<and> \<not> is_device_method unknown_gradient_fn device0"
  by code_simp

lemma list_append_has_no_module:
  "module_in_gradients list_append = Inl AttributeError
   \<and> \<not> is_gradient_transform list_append \<and> \<not> is_device_method list_append device0"
  by code_simp

text \<open>Re-entries into \<open>execute\<close>: each is one level up.\<close>

lemma reenters_step:
  "reenters C nd nd' \<Longrightarrow> nd_n nd' = nd_n nd + 1
     \<and> nd_device nd' = nd_device nd \<and> nd_execute_fn nd' = nd_execute_fn nd
     \<and> nd_gradient_fn nd' = nd_gradient_fn nd"
proof (induction rule: reenters.induct)
  case (backward_pass nd' nd dy d)
  let ?evs = "events (grad_fn_vjps C (nd_ans nd) (nd_tapes nd) (nd_device nd)
      (nd_execute_fn nd) (nd_gradient_fn nd) (nd_n nd) dy d)"
  from backward_pass have member: "PrimitiveCall nd' \<in> set ?evs"
    by (simp add: grad_fn_events)
  from grad_fn_vjps_events [of C "nd_ans nd" "nd_tapes nd" "nd_device nd" "nd_execute_fn nd"
      "nd_gradient_fn nd" "nd_n nd" dy d]
  consider "?evs = []"
    | vjp_tapes where "?evs = events (execute C vjp_tapes (nd_device nd) (nd_execute_fn nd)
        (nd_gradient_fn nd) (Some (nd_n nd + 1)) d)"
    | "?evs = [GradientFn (map (map unwrap_val \<circ> params) (nd_tapes nd))]"
    by blast
  then show ?case
  proof cases
    case 1
    with member show ?thesis by simp
  next
    case 2
    with member have "PrimitiveCall nd' \<in> set (events (execute C vjp_tapes (nd_device nd)
        (nd_execute_fn nd) (nd_gradient_fn nd) (Some (nd_n nd + 1)) d))"
      by simp
    from execute_node [OF this] show ?thesis by simp
  next
    case 3
    with member show ?thesis by simp
  qed
qed

lemma reenters_chain: "(reenters C)\<^sup>*\<^sup>* nd nd' \<Longrightarrow> nd_n nd \<le> nd_n nd'"
proof (induction rule: rtranclp_induct)
  case base
  show ?case by simp
next
  case (step mid nd')
  from step.hyps(2) have "nd_n nd' = nd_n mid + 1" by (simp add: reenters_step)
  with step.IH show ?case by simp
qed

lemma param_shift_reenters: "reenters library (node_at k tapes) (node_at (k + 1) (tapes @ tapes))"
proof -
  have "events (grad_fn library (nd_ans (node_at k tapes)) (nd_tapes (node_at k tapes))
          (nd_device (node_at k tapes)) (nd_execute_fn (node_at k tapes))
          (nd_gradient_fn (node_at k tapes)) (nd_n (node_at k tapes)) ([Tensor [1]], []) 0)
      = [ExecuteCall (k + 1), ExecuteFn (map (map unwrap_val \<circ> params) (tapes @ tapes)),
         PrimitiveCall (node_at (k + 1) (tapes @ tapes))]"
    using param_shift_is_transform
    by (simp add: node_at_def grad_fn_events grad_fn_vjps_def Let_def library_def execute_eq
        is_gradient_transform_def simulator_def unwrapped_def)
  then have "PrimitiveCall (node_at (k + 1) (tapes @ tapes))
      \<in> set (events (grad_fn library (nd_ans (node_at k tapes)) (nd_tapes (node_at k tapes))
          (nd_device (node_at k tapes)) (nd_execute_fn (node_at k tapes))
          (nd_gradient_fn (node_at k tapes)) (nd_n (node_at k tapes)) ([Tensor [1]], []) 0))"
    by simp
  then show ?thesis by (rule reenters.backward_pass)
qed

lemma outermost_node:
  "PrimitiveCall (node_at 1 tapes)
     \<in> set (events (execute library tapes device0 simulator param_shift None 0))"
  by (simp add: execute_eq node_at_def library_def simulator_def unwrapped_def)

text \<open>
  The strategy of the gradient rule, case by case, for a \<open>gradient_fn\<close> whose module
  \<open>inspect\<close> finds: stored Jacobians; a gradient transform; a method of the device;
  anything else.
\<close>

lemma grad_fn_cases:
  "(snd ans \<noteq> [] \<longrightarrow>
      result (grad_fn_vjps C ans tapes device execute_fn gradient_fn n dy d)
        = vector_jacobian_products C (fst dy) (snd ans)
      \<and> events (grad_fn C ans tapes device execute_fn gradient_fn n dy d) = []
      \<and> device_after (grad_fn C ans tapes device execute_fn gradient_fn n dy d) = d)
   \<and> (snd ans = [] \<and> module_in_gradients gradient_fn = Inr True
       \<and> batch_vjp C tapes (fst dy) gradient_fn = Inr (vjp_tapes, fn) \<longrightarrow>
      result (grad_fn_vjps C ans tapes device execute_fn gradient_fn n dy d)
        = (case result (execute C vjp_tapes device execute_fn gradient_fn (Some (n + 1)) d) of
             Inl e \<Rightarrow> Inl e | Inr res \<Rightarrow> fn res)
      \<and> events (grad_fn C ans tapes device execute_fn gradient_fn n dy d)
        = events (execute C vjp_tapes device execute_fn gradient_fn (Some (n + 1)) d)
      \<and> device_after (grad_fn C ans tapes device execute_fn gradient_fn n dy d)
        = device_after (execute C vjp_tapes device execute_fn gradient_fn (Some (n + 1)) d))
   \<and> (snd ans = [] \<and> module_in_gradients gradient_fn = Inr False
       \<and> is_device_method gradient_fn device \<longrightarrow>
      result (grad_fn_vjps C ans tapes device execute_fn gradient_fn n dy d)
        = (case fst (gf_call gradient_fn (unwrapped tapes) d) of
             Inl e \<Rightarrow> Inl e | Inr jacs \<Rightarrow> vector_jacobian_products C (fst dy) jacs)
      \<and> events (grad_fn C ans tapes device execute_fn gradient_fn n dy d)
        = [GradientFn (map (map unwrap_val \<circ> params) tapes)]
      \<and> device_after (grad_fn C ans tapes device execute_fn gradient_fn n dy d)
        = snd (gf_call gradient_fn (unwrapped tapes) d))
   \<and> (snd ans = [] \<and> module_in_gradients gradient_fn = Inr False
       \<and> \<not> is_device_method gradient_fn device \<longrightarrow>
      result (grad_fn C ans tapes device execute_fn gradient_fn n dy d)
        = Inl (ValueError ''Unknown gradient function!!!'')
      \<and> events (grad_fn C ans tapes device execute_fn gradient_fn n dy d) = []
      \<and> device_after (grad_fn C ans tapes device execute_fn gradient_fn n dy d) = d)"
  by (simp add: grad_fn_result grad_fn_events grad_fn_device_after grad_fn_vjps_def Let_def
      device_method_eq)

section \<open>Properties of the differentiable execution\<close>

text \<open>
  C1, at a \<open>gradient_fn\<close> for which \<open>inspect.getmodule\<close> returns \<open>None\<close> (the callable
  \<open>[].append\<close>), with no stored Jacobians: it is neither a gradient transform nor a method
  of the device, and \<open>grad_fn\<close> raises \<open>AttributeError\<close> at the test of line 138, not the
  error of an unrecognised gradient function. Nothing has been called.
\<close>

theorem grad_fn_without_module_raises_AttributeError:
  "module_in_gradients list_append = Inl AttributeError
   \<and> \<not> is_gradient_transform list_append
   \<and> \<not> is_device_method list_append device0
   \<and> grad_fn library ([Tensor [1]], []) [tape0] device0 simulator list_append 1
        ([Tensor [1]], []) 0
     = \<lparr>result = Inl AttributeError, tapes_after = [tape0], device_after = 0, events = []\<rparr>"
  using list_append_has_no_module
  by (simp add: grad_fn_def grad_fn_vjps_def)

text \<open>
  C2: the substitution of parameters around the device call is scoped and exception-safe.
  After every call of \<open>execute\<close> and of \<open>grad_fn\<close> the tapes of the caller hold their
  original parameters, on every path; the device has seen the plain values; and when
  \<open>execute_fn\<close>, or \<open>gradient_fn\<close> on the device-bound path, raises \<open>e\<close>, the call
  raises \<open>e\<close> with the tapes restored.
\<close>

theorem tape_parameters_restored:
  "tapes_after (execute C tapes device execute_fn gradient_fn n_arg d) = tapes
   \<and> tapes_after (grad_fn C ans tapes device execute_fn gradient_fn' n dy d) = tapes
   \<and> device_calls (events (execute C tapes device execute_fn gradient_fn n_arg d))
       = [ExecuteFn (map (map unwrap_val \<circ> params) tapes)]
   \<and> (fst (execute_fn (unwrapped tapes) d) = Inl e \<longrightarrow>
        result (execute C tapes device execute_fn gradient_fn n_arg d) = Inl e
        \<and> tapes_after (execute C tapes device execute_fn gradient_fn n_arg d) = tapes)
   \<and> (snd ans = [] \<and> module_in_gradients gradient_fn' = Inr False
        \<and> is_device_method gradient_fn' device
        \<and> fst (gf_call gradient_fn' (unwrapped tapes) d) = Inl e \<longrightarrow>
        result (grad_fn C ans tapes device execute_fn gradient_fn' n dy d) = Inl e
        \<and> tapes_after (grad_fn C ans tapes device execute_fn gradient_fn' n dy d) = tapes)"
  by (simp add: execute_device_calls grad_fn_tapes_after grad_fn_result grad_fn_vjps_def Let_def
      device_method_eq) (simp add: execute_eq)

text \<open>
  A device that fails, for the forward execution and for the device-bound gradient path, on
  a tape whose parameters are boxed.
\<close>

theorem tape_parameters_restored_witness:
  "result (execute library [tape0] device0 failing_device param_shift None 0)
     = Inl (Raised ''device failure'')
   \<and> tapes_after (execute library [tape0] device0 failing_device param_shift None 0) = [tape0]
   \<and> device_calls (events (execute library [tape0] device0 failing_device param_shift None 0))
     = [ExecuteFn [[Tensor [0.1], Tensor [0.2]]]]
   \<and> result (grad_fn library ([Tensor [1]], []) [tape0] device0 failing_device failing_method 1
        ([Tensor [1]], []) 0) = Inl (Raised ''device failure'')
   \<and> tapes_after (grad_fn library ([Tensor [1]], []) [tape0] device0 failing_device
        failing_method 1 ([Tensor [1]], []) 0) = [tape0]"
  using tape_parameters_restored [where C = library and tapes = "[tape0]" and device = device0
      and execute_fn = failing_device and gradient_fn = param_shift and n_arg = None and d = 0
      and ans = "([Tensor [1]], [])" and gradient_fn' = failing_method and n = 1
      and dy = "([Tensor [1]], [])" and e = "Raised ''device failure''"]
    failing_method_is_method
  by (simp add: failing_device_def failing_method_def tape0_def)

text \<open>
  C3: the nesting level starts at 1 on an outermost call of \<open>execute\<close>, which leaves
  \<open>_n\<close> out: it enters at 1 and the call of \<open>_execute\<close> it makes carries \<open>_n = 1\<close>; a
  call of \<open>execute\<close> that gives \<open>_n\<close> hands it to \<open>_execute\<close> unchanged. Every call of
  \<open>_execute\<close> made while the host differentiates a call at level \<open>n\<close> is at level
  \<open>n + 1\<close>. Along a chain of such re-entries the level never decreases, and from an
  outermost call it stays positive.
\<close>

theorem nesting_level_increases_by_one:
  "entered (events (execute C tapes device execute_fn gradient_fn None d)) = [1]
   \<and> (PrimitiveCall nd \<in> set (events (execute C tapes device execute_fn gradient_fn None d))
        \<longrightarrow> nd_n nd = 1)
   \<and> (PrimitiveCall nd \<in> set (events (execute C tapes device execute_fn gradient_fn (Some k) d))
        \<longrightarrow> nd_n nd = k)
   \<and> (reenters C nd nd' \<longrightarrow> nd_n nd' = nd_n nd + 1)
   \<and> ((reenters C)\<^sup>*\<^sup>* nd nd' \<longrightarrow> nd_n nd \<le> nd_n nd')
   \<and> (PrimitiveCall nd \<in> set (events (execute C tapes device execute_fn gradient_fn None d))
        \<and> (reenters C)\<^sup>*\<^sup>* nd nd' \<longrightarrow> 0 < nd_n nd')"
proof (intro conjI impI)
  show "entered (events (execute C tapes device execute_fn gradient_fn None d)) = [1]"
    by (simp add: execute_entered)
next
  assume "PrimitiveCall nd \<in> set (events (execute C tapes device execute_fn gradient_fn None d))"
  from execute_node [OF this] show "nd_n nd = 1" by simp
next
  assume "PrimitiveCall nd
    \<in> set (events (execute C tapes device execute_fn gradient_fn (Some k) d))"
  from execute_node [OF this] show "nd_n nd = k" by simp
next
  assume "reenters C nd nd'"
  then show "nd_n nd' = nd_n nd + 1" by (simp add: reenters_step)
next
  assume "(reenters C)\<^sup>*\<^sup>* nd nd'"
  then show "nd_n nd \<le> nd_n nd'" by (rule reenters_chain)
next
  assume both: "PrimitiveCall nd
      \<in> set (events (execute C tapes device execute_fn gradient_fn None d))
    \<and> (reenters C)\<^sup>*\<^sup>* nd nd'"
  then have "nd_n nd = 1" using execute_node [of nd C tapes device execute_fn gradient_fn None d]
    by simp
  moreover from both have "(reenters C)\<^sup>*\<^sup>* nd nd'" by simp
  then have "nd_n nd \<le> nd_n nd'" by (rule reenters_chain)
  ultimately show "0 < nd_n nd'" by simp
qed

text \<open>
  With a gradient transform: the outermost call on one tape is at level 1, its backward
  pass executes two gradient tapes at level 2, and the backward pass of that call four at
  level 3.
\<close>

theorem nesting_level_increases_by_one_witness:
  "PrimitiveCall (node_at 1 [tape0])
     \<in> set (events (execute library [tape0] device0 simulator param_shift None 0))
   \<and> reenters library (node_at 1 [tape0]) (node_at 2 [tape0, tape0])
   \<and> (reenters library)\<^sup>*\<^sup>* (node_at 1 [tape0]) (node_at 3 [tape0, tape0, tape0, tape0])
   \<and> nd_n (node_at 2 [tape0, tape0]) = nd_n (node_at 1 [tape0]) + 1
   \<and> 0 < nd_n (node_at 3 [tape0, tape0, tape0, tape0])"
proof -
  have start: "PrimitiveCall (node_at 1 [tape0])
      \<in> set (events (execute library [tape0] device0 simulator param_shift None 0))"
    by (rule outermost_node)
  have one: "reenters library (node_at 1 [tape0]) (node_at 2 [tape0, tape0])"
    using param_shift_reenters [of 1 "[tape0]"] by simp
  have two: "reenters library (node_at 2 [tape0, tape0]) (node_at 3 [tape0, tape0, tape0, tape0])"
    using param_shift_reenters [of 2 "[tape0, tape0]"] by simp
  from one two
  have chain: "(reenters library)\<^sup>*\<^sup>* (node_at 1 [tape0]) (node_at 3 [tape0, tape0, tape0, tape0])"
    by (meson rtranclp.rtrancl_into_rtrancl rtranclp.rtrancl_refl)
  from nesting_level_increases_by_one [where C = library and tapes = "[tape0]"
      and device = device0 and execute_fn = simulator and gradient_fn = param_shift and d = 0
      and nd = "node_at 1 [tape0]" and nd' = "node_at 3 [tape0, tape0, tape0, tape0]"]
    start chain
  have positive: "0 < nd_n (node_at 3 [tape0, tape0, tape0, tape0])" by blast
  from nesting_level_increases_by_one [where C = library and nd = "node_at 1 [tape0]"
      and nd' = "node_at 2 [tape0, tape0]"] one
  have "nd_n (node_at 2 [tape0, tape0]) = nd_n (node_at 1 [tape0]) + 1" by blast
  with start one chain positive show ?thesis by blast
qed

text \<open>
  C4: when \<open>grad_fn\<close> has obtained \<open>vjps\<close>, it returns a list of the same length in
  which every component that is an \<open>ArrayBox\<close> has been passed to \<open>to_numpy\<close> with
  \<open>max_depth\<close> equal to the nesting level \<open>_n\<close>, and every other component is
  unchanged. With \<open>to_numpy\<close> as the spec describes it, every component loses \<open>_n\<close>
  levels of wrapping (all of them when it has no more): the wrapping above the current
  level stays.
\<close>

theorem vjps_unwrapped_to_nesting_level:
  "result (grad_fn_vjps C ans tapes device execute_fn gradient_fn n dy d) = Inr vjps \<longrightarrow>
     (\<exists>out. result (grad_fn C ans tapes device execute_fn gradient_fn n dy d) = Inr out
        \<and> length out = length vjps
        \<and> (\<forall>i<length vjps.
              (is_ArrayBox (vjps ! i) \<longrightarrow> out ! i = to_numpy C (vjps ! i) n)
              \<and> (\<not> is_ArrayBox (vjps ! i) \<longrightarrow> out ! i = vjps ! i))
        \<and> (to_numpy C = to_numpy_spec \<longrightarrow>
              (\<forall>i<length vjps. box_depth (out ! i) = box_depth (vjps ! i) - nat n)))"
proof
  assume raw: "result (grad_fn_vjps C ans tapes device execute_fn gradient_fn n dy d) = Inr vjps"
  let ?out = "map (\<lambda>v. if is_ArrayBox v then to_numpy C v n else v) vjps"
  have res: "result (grad_fn C ans tapes device execute_fn gradient_fn n dy d) = Inr ?out"
    by (simp add: grad_fn_result raw)
  have boxed: "box_depth (to_numpy_spec v n) = box_depth v - nat n" for v
    by (simp add: to_numpy_spec_def box_depth_strip)
  have plain: "\<not> is_ArrayBox v \<Longrightarrow> box_depth v = 0" for v
    by (cases v) simp_all
  have "to_numpy C = to_numpy_spec \<longrightarrow>
      (\<forall>i<length vjps. box_depth (?out ! i) = box_depth (vjps ! i) - nat n)"
    by (simp add: boxed plain)
  with res show "\<exists>out. result (grad_fn C ans tapes device execute_fn gradient_fn n dy d) = Inr out
        \<and> length out = length vjps
        \<and> (\<forall>i<length vjps.
              (is_ArrayBox (vjps ! i) \<longrightarrow> out ! i = to_numpy C (vjps ! i) n)
              \<and> (\<not> is_ArrayBox (vjps ! i) \<longrightarrow> out ! i = vjps ! i))
        \<and> (to_numpy C = to_numpy_spec \<longrightarrow>
              (\<forall>i<length vjps. box_depth (out ! i) = box_depth (vjps ! i) - nat n))"
    by (intro exI [of _ ?out]) simp
qed

text \<open>
  At nesting level 1 an upstream gradient boxed twice keeps one box, and a plain Jacobian
  is returned as it is.
\<close>

theorem vjps_unwrapped_to_nesting_level_witness:
  "result (grad_fn_vjps library ([Tensor [1]], [Tensor [0, 0]]) [tape0] device0 simulator_forward
      param_shift 1 ([ArrayBox (ArrayBox (Tensor [1]))], []) 0)
     = Inr [ArrayBox (ArrayBox (Tensor [1])), Tensor [0, 0]]
   \<and> result (grad_fn library ([Tensor [1]], [Tensor [0, 0]]) [tape0] device0 simulator_forward
      param_shift 1 ([ArrayBox (ArrayBox (Tensor [1]))], []) 0)
     = Inr [ArrayBox (Tensor [1]), Tensor [0, 0]]"
proof -
  let ?r = "grad_fn library ([Tensor [1]], [Tensor [0, 0]]) [tape0] device0 simulator_forward
      param_shift 1 ([ArrayBox (ArrayBox (Tensor [1]))], []) 0"
  have raw: "result (grad_fn_vjps library ([Tensor [1]], [Tensor [0, 0]]) [tape0] device0
      simulator_forward param_shift 1 ([ArrayBox (ArrayBox (Tensor [1]))], []) 0)
     = Inr [ArrayBox (ArrayBox (Tensor [1])), Tensor [0, 0]]"
    by (simp add: grad_fn_vjps_def library_def)
  from vjps_unwrapped_to_nesting_level [where C = library
      and ans = "([Tensor [1]], [Tensor [0, 0]])" and tapes = "[tape0]" and device = device0
      and execute_fn = simulator_forward and gradient_fn = param_shift and n = 1
      and dy = "([ArrayBox (ArrayBox (Tensor [1]))], [])" and d = 0
      and vjps = "[ArrayBox (ArrayBox (Tensor [1])), Tensor [0, 0]]"] raw
  obtain out where out: "result ?r = Inr out" "length out = 2"
    and each: "\<forall>i<2. (is_ArrayBox ([ArrayBox (ArrayBox (Tensor [1])), Tensor [0, 0]] ! i) \<longrightarrow>
          out ! i = to_numpy library ([ArrayBox (ArrayBox (Tensor [1])), Tensor [0, 0]] ! i) 1)
        \<and> (\<not> is_ArrayBox ([ArrayBox (ArrayBox (Tensor [1])), Tensor [0, 0]] ! i) \<longrightarrow>
          out ! i = [ArrayBox (ArrayBox (Tensor [1])), Tensor [0, 0]] ! i)"
    by auto
  from each have "out ! 0 = to_numpy library (ArrayBox (ArrayBox (Tensor [1]))) 1"
    by (metis is_ArrayBox.simps(1) nth_Cons_0 pos2)
  then have first: "out ! 0 = ArrayBox (Tensor [1])"
    by (simp add: library_def to_numpy_spec_def)
  from each have "(\<not> is_ArrayBox ([ArrayBox (ArrayBox (Tensor [1])), Tensor [0, 0]] ! 1) \<longrightarrow>
          out ! 1 = [ArrayBox (ArrayBox (Tensor [1])), Tensor [0, 0]] ! 1)"
    by (metis one_less_numeral_iff semiring_norm(76))
  then have second: "out ! 1 = Tensor [0, 0]" by simp
  from out(2) obtain a b where "out = [a, b]"
    by (auto simp: numeral_2_eq_2 length_Suc_conv)
  with first second have "out = [ArrayBox (Tensor [1]), Tensor [0, 0]]" by simp
  with out(1) raw show ?thesis by simp
qed

text \<open>
  C5, as stated, at the \<open>lambda x: x\<close> of \<open>test_unknown_gradient_fn_error\<close>, which is
  neither a gradient transform nor a method of the device: \<open>execute\<close> raises nothing, it
  returns the results, and the device has been called.
\<close>

theorem unknown_gradient_fn_forward_pass_runs:
  "\<not> is_gradient_transform unknown_gradient_fn
   \<and> \<not> is_device_method unknown_gradient_fn device0
   \<and> result (execute library [tape0] device0 simulator unknown_gradient_fn None 0)
       = Inr [Tensor [1]]
   \<and> device_calls (events (execute library [tape0] device0 simulator unknown_gradient_fn None 0))
       = [ExecuteFn [[Tensor [0.1], Tensor [0.2]]]]"
  using unknown_gradient_fn_is_unknown
  by (simp add: execute_device_calls tape0_def)
     (simp add: execute_eq simulator_def library_def unwrapped_def)

text \<open>
  C5, amended: for every call of \<open>execute\<close> with a \<open>gradient_fn\<close>, of a module that
  \<open>inspect\<close> finds, that is neither a gradient transform nor a method bound to the
  device, the forward pass calls the device once and returns or raises what
  \<open>execute_fn\<close> does; the configuration error is raised by the gradient rule, during the
  backward pass, when the stored Jacobians are empty, before any device call of that pass
  and once, the tapes and the device left as they were. With stored Jacobians the gradient
  rule does not look at \<open>gradient_fn\<close>.
\<close>

theorem unknown_gradient_fn_error_in_backward_pass:
  "module_in_gradients gradient_fn = Inr False \<and> \<not> is_device_method gradient_fn device \<longrightarrow>
     result (execute C tapes device execute_fn gradient_fn n_arg d)
       = (case fst (execute_fn (unwrapped tapes) d) of
            Inl e \<Rightarrow> Inl e | Inr (res, jacs) \<Rightarrow> Inr (map (np_tensor C) res))
     \<and> device_calls (events (execute C tapes device execute_fn gradient_fn n_arg d))
       = [ExecuteFn (map (map unwrap_val \<circ> params) tapes)]
     \<and> (snd ans = [] \<longrightarrow>
          grad_fn C ans tapes device execute_fn gradient_fn n dy d
            = \<lparr>result = Inl (ValueError ''Unknown gradient function!!!''),
               tapes_after = tapes, device_after = d, events = []\<rparr>)
     \<and> (snd ans \<noteq> [] \<longrightarrow>
          result (grad_fn_vjps C ans tapes device execute_fn gradient_fn n dy d)
            = vector_jacobian_products C (fst dy) (snd ans))"
  by (simp add: execute_device_calls grad_fn_def grad_fn_vjps_def) (simp add: execute_eq)

text \<open>The call of the test: the forward pass returns, the backward pass raises.\<close>

theorem unknown_gradient_fn_error_in_backward_pass_witness:
  "result (execute library [tape0] device0 simulator unknown_gradient_fn None 0)
     = Inr [Tensor [1]]
   \<and> grad_fn library ([Tensor [1]], []) [tape0] device0 simulator unknown_gradient_fn 1
        ([Tensor [1]], []) 0
     = \<lparr>result = Inl (ValueError ''Unknown gradient function!!!''),
        tapes_after = [tape0], device_after = 0, events = []\<rparr>"
  using unknown_gradient_fn_error_in_backward_pass [where C = library and tapes = "[tape0]"
      and device = device0 and execute_fn = simulator and gradient_fn = unknown_gradient_fn
      and n_arg = None and d = 0 and ans = "([Tensor [1]], [])" and n = 1
      and dy = "([Tensor [1]], [])"]
    unknown_gradient_fn_is_unknown
  by (simp add: simulator_def library_def unwrapped_def)



text \<open>
  C8: for every call that combines \<open>mode="forward"\<close> with a gradient-transform
  \<open>gradient_fn\<close>, validation fails with the error
  \<open>Gradient transforms cannot be used with mode='forward'\<close> before any device call: no
  event, the device and the tapes as they were.
\<close>

theorem forward_mode_rejects_gradient_transform:
  "is_gradient_transform gradient_fn \<longrightarrow>
     execute_mode C tapes device execute_fn gradient_fn Forward d
       = \<lparr>result = Inl (ValueError forward_mode_message),
          tapes_after = tapes, device_after = d, events = []\<rparr>"
  by (simp add: execute_mode_def)

text \<open>The call of \<open>test_incorrect_mode\<close>, with \<open>param_shift\<close>.\<close>

theorem forward_mode_rejects_gradient_transform_witness:
  "execute_mode library [tape0] device0 simulator_forward param_shift Forward 0
     = \<lparr>result = Inl (ValueError forward_mode_message),
        tapes_after = [tape0], device_after = 0, events = []\<rparr>"
  using forward_mode_rejects_gradient_transform [where C = library and tapes = "[tape0]"
      and device = device0 and execute_fn = simulator_forward and gradient_fn = param_shift
      and d = 0] param_shift_is_transform
  by simp

section \<open>Properties of the basis-set loader\<close>

lemma mol_loop_success:
  "map (atom_basis_data STO3G name) symbols = map Inr bs \<Longrightarrow>
   mol_loop STO3G name symbols n_basis basis_set
     = Inr (n_basis @ map length bs, basis_set @ concat bs)"
proof (induction symbols arbitrary: bs n_basis basis_set)
  case Nil
  then show ?case by simp
next
  case (Cons s symbols)
  then obtain b bs' where bs: "bs = b # bs'" by (cases bs) auto
  with Cons.prems have first: "atom_basis_data STO3G name s = Inr b"
    and others: "map (atom_basis_data STO3G name) symbols = map Inr bs'" by auto
  show ?case using Cons.IH [OF others] by (simp add: first bs)
qed

text \<open>An atom for which \<open>atom_basis_data\<close> raises makes \<open>mol_basis_data\<close> raise.\<close>

lemma mol_loop_failure:
  "\<exists>s\<in>set symbols. isl (atom_basis_data STO3G name s) \<Longrightarrow>
   isl (mol_loop STO3G name symbols n_basis basis_set)"
  by (induction symbols arbitrary: n_basis basis_set) (auto split: sum.splits)

text \<open>Whatever the table holds, a symbol that is not one of its keys is a \<open>KeyError\<close>.\<close>

lemma missing_symbol_raises:
  "STO3G s = None \<Longrightarrow> mol_basis_data STO3G ''sto-3g'' [s] = Inl (KeyError s)"
  by (simp add: mol_basis_data_def atom_basis_data_def basis_sets_def)

lemma hydrogen_basis:
  "atom_basis_data STO3G_H ''sto-3g'' ''H''
     = Inr [((0, 0, 0), [3.425250914, 0.6239137298, 0.168855404],
             [0.1543289673, 0.5353281423, 0.4446345422])]"
  by (simp add: atom_basis_data_def basis_sets_def STO3G_H_def hydrogen_def orbital_params_def
      and_then_def index_def s_shell_def enumerate_eq_zip)

text \<open>
  C10, as stated, at a symbol that the table lacks: with the table of the docstring,
  \<open>mol_basis_data('sto-3g', ['U'])\<close> returns no pair, the lookup
  \<open>basis_sets[name][atom]\<close> raises \<open>KeyError\<close>.
\<close>

theorem mol_basis_data_missing_symbol:
  "mol_basis_data STO3G_H ''sto-3g'' [''U''] = Inl (KeyError ''U'')"
  by (simp add: mol_basis_data_def atom_basis_data_def basis_sets_def STO3G_H_def)

text \<open>
  C10, amended: for every basis-set name present in the basis data and every list of
  atomic symbols for each of which \<open>atom_basis_data(name, symbol)\<close> returns (\<open>bs\<close> lists
  what it returns, symbol by symbol), \<open>mol_basis_data(name, symbols)\<close> returns the pair
  \<open>(n_basis, params)\<close> where \<open>n_basis\<close> has one entry per symbol, the length of that
  symbol's \<open>atom_basis_data\<close>, and \<open>params\<close> is the concatenation, in symbol order, of
  the atoms' basis parameters; the length of \<open>params\<close> is the sum of \<open>n_basis\<close>.
\<close>

theorem mol_basis_data_counts_and_concatenation:
  assumes "basis_sets STO3G name = Some table"
    and "map (atom_basis_data STO3G name) symbols = map Inr bs"
  shows "mol_basis_data STO3G name symbols = Inr (map length bs, concat bs)
     \<and> length (map length bs) = length symbols
     \<and> length (concat bs) = sum_list (map length bs)"
proof -
  have "length (map (atom_basis_data STO3G name) symbols)
      = length (map Inr bs :: (error + basis_param list) list)"
    using assms(2) by simp
  then have "length bs = length symbols" by simp
  moreover have "mol_basis_data STO3G name symbols = Inr (map length bs, concat bs)"
    using mol_loop_success [OF assms(2), of "[]" "[]"] by (simp add: mol_basis_data_def)
  ultimately show ?thesis by (simp add: length_concat)
qed

text \<open>The example of the docstring: \<open>mol_basis_data('sto-3g', ['H', 'H'])\<close>.\<close>

theorem mol_basis_data_counts_and_concatenation_witness:
  "mol_basis_data STO3G_H ''sto-3g'' [''H'', ''H'']
     = Inr ([1, 1],
        [((0, 0, 0), [3.425250914, 0.6239137298, 0.168855404],
            [0.1543289673, 0.5353281423, 0.4446345422]),
         ((0, 0, 0), [3.425250914, 0.6239137298, 0.168855404],
            [0.1543289673, 0.5353281423, 0.4446345422])])"
proof -
  have present: "basis_sets STO3G_H ''sto-3g'' = Some STO3G_H"
    by (simp add: basis_sets_def)
  have each: "map (atom_basis_data STO3G_H ''sto-3g'') [''H'', ''H'']
      = map Inr [[((0, 0, 0), [3.425250914, 0.6239137298, 0.168855404],
                   [0.1543289673, 0.5353281423, 0.4446345422])],
                 [((0, 0, 0), [3.425250914, 0.6239137298, 0.168855404],
                   [0.1543289673, 0.5353281423, 0.4446345422])]]"
    by (simp add: hydrogen_basis)
  show ?thesis using mol_basis_data_counts_and_concatenation [OF present each] by simp
qed

section \<open>Properties of the kernel cost functions\<close>

text \<open>
  The rescaling never divides by zero: a label equal to 1 is counted in \<open>nplus\<close>, any
  other label in \<open>nminus\<close>.
\<close>

lemma rescale_no_zero_division:
  assumes "y \<in> set Y"
  shows "(if y = 1 then length (filter (\<lambda>y. y = 1) Y)
          else length Y - length (filter (\<lambda>y. y = 1) Y)) \<noteq> 0"
proof (cases "y = 1")
  case True
  with assms have "y \<in> set (filter (\<lambda>y. y = 1) Y)" by simp
  then have "0 < length (filter (\<lambda>y. y = 1) Y)" by (rule length_pos_if_in_set)
  with True show ?thesis by simp
next
  case False
  with assms have "length (filter (\<lambda>y. y = 1) Y) < length Y"
    by (intro length_filter_less) auto
  with False show ?thesis by simp
qed

text \<open>
  C9: for every dataset \<open>X\<close>, label list \<open>Y\<close>, kernel function and every setting of the
  flags \<open>assume_normalized_kernel\<close> and \<open>rescale_class_labels\<close>, \<open>target_alignment\<close>
  returns (or raises) exactly what \<open>polarity\<close> does with the same arguments and
  \<open>normalize=True\<close>, from the same state of the kernel's device and leaving the same
  state.
\<close>

theorem target_alignment_is_normalized_polarity:
  "target_alignment U X Y kernel_fn assume_normalized_kernel rescale_class_labels s
     = polarity U X Y kernel_fn assume_normalized_kernel rescale_class_labels True s"
  by (simp add: target_alignment_def)

end
